theory Spec2Isabelle
  imports Main "HOL-Library.Word"
begin

section \<open>Data model\<close>

text \<open>
  Go \<open>error\<close> values. \<open>ErrRouteNotFound\<close> is the sentinel
  \<open>repository.ErrRouteNotFound\<close> that \<open>GetRouteByPath\<close> returns after a
  fruitless scan; every other error is identified by its message.
\<close>

datatype error = ErrRouteNotFound | OtherError string

text \<open>
  Modelled from the spec: the declaration of \<open>model.Route\<close> is not part of the
  sources at hand; the fields are those of the data model (path, serviceURL, methods,
  isActive, callCount, totalResponseTime). \<open>Methods\<close> is a Go slice, ranged over in
  order by \<open>IsMethodAllowed\<close>; the counters are 64-bit integers.
\<close>

record route =
  Path :: string
  ServiceURL :: string
  Methods :: "string list"
  IsActive :: bool
  CallCount :: "64 word"
  TotalResponseTime :: "64 word"

text \<open>
  What the Service stores in the cache: a single route (under \<open>route:<path>\<close>) or the
  whole list (under \<open>routes\<close>).
\<close>

datatype cache_value = RouteValue route | RoutesValue "route list"

text \<open>
  The answer of \<open>cache.Get(ctx, key, &out)\<close>, which in Go is \<open>(found, err)\<close> plus the
  value written through \<open>out\<close>. The Service tests \<open>err != nil\<close> first and \<open>found\<close> second;
  \<open>out\<close> is taken to be written on a hit only, so that after a miss or an error the
  variable still holds its zero value (a nil slice, a nil pointer).
\<close>

datatype 'a get_reply = Found 'a | NotFound | GetFailed error

text \<open>\<open>time.Duration\<close> counts nanoseconds; every cache write uses \<open>5*time.Minute\<close>.\<close>

definition Minute :: int where
  "Minute = 60 * 1000000000"

definition cacheTTL :: int where
  "cacheTTL = 5 * Minute"

section \<open>Ports\<close>

text \<open>
  The cache, the repository and the path matcher are interfaces whose implementations
  live outside the Service. They are parameters of the model: each port is a function on
  an abstract world \<open>'w\<close> (the joint state of cache backend and store) that returns its
  answer and the next world. \<open>match_route_path\<close> stands for \<open>model.MatchRoutePath\<close>,
  a pure predicate on (registered pattern, requested path).
\<close>

record 'w ports =
  cache_get_route :: "string \<Rightarrow> 'w \<Rightarrow> route get_reply \<times> 'w"
  cache_get_routes :: "string \<Rightarrow> 'w \<Rightarrow> route list get_reply \<times> 'w"
  cache_set :: "string \<Rightarrow> cache_value \<Rightarrow> int \<Rightarrow> 'w \<Rightarrow> error option \<times> 'w"
  cache_delete :: "string \<Rightarrow> 'w \<Rightarrow> error option \<times> 'w"
  repo_get_routes :: "'w \<Rightarrow> (route list \<times> error option) \<times> 'w"
  repo_add_route :: "route \<Rightarrow> 'w \<Rightarrow> error option \<times> 'w"
  repo_update_route :: "route \<Rightarrow> 'w \<Rightarrow> error option \<times> 'w"
  repo_delete_route :: "string \<Rightarrow> 'w \<Rightarrow> error option \<times> 'w"
  repo_update_metrics :: "string \<Rightarrow> 64 word \<Rightarrow> 64 word \<Rightarrow> 'w \<Rightarrow> error option \<times> 'w"
  match_route_path :: "string \<Rightarrow> string \<Rightarrow> bool"

text \<open>
  Every call the Service issues on a port is recorded, in order, the way a mock counts
  calls. Each Service operation returns its result, the world it leaves behind and the
  calls it issued. Log and trace emission never influence control flow and are left out.
\<close>

datatype call =
    CacheGet string
  | CacheSet string cache_value int
  | CacheDelete string
  | RepoGetRoutes
  | RepoAddRoute route
  | RepoUpdateRoute route
  | RepoDeleteRoute string
  | RepoUpdateMetrics string "64 word" "64 word"
  | MatchRoutePath string string

section \<open>The route Service (internal/app/route/service.go)\<close>


text \<open>
  The list part of \<open>Service.GetRouteByPath\<close> (the block that fills \<open>routes\<close>): on a
  cache error the branch only logs, so \<open>routes\<close> keeps its zero value, the empty slice;
  on a hit it is the cached list; on a miss the repository is asked, its error is
  returned, and its list is written back best-effort.
\<close>

definition loadRoutes :: "'w ports \<Rightarrow> 'w \<Rightarrow> (error + route list) \<times> 'w \<times> call list" where
  "loadRoutes P w =
     (let cacheKey = ''routes'';
          (reply, w1) = cache_get_routes P cacheKey w
      in case reply of
           GetFailed e \<Rightarrow> (Inr [], w1, [CacheGet cacheKey])
         | Found routes \<Rightarrow> (Inr routes, w1, [CacheGet cacheKey])
         | NotFound \<Rightarrow>
             (let ((routes, err), w2) = repo_get_routes P w1
              in case err of
                   Some e \<Rightarrow> (Inl e, w2, [CacheGet cacheKey, RepoGetRoutes])
                 | None \<Rightarrow>
                     (let (serr, w3) = cache_set P cacheKey (RoutesValue routes) cacheTTL w2
                      in (Inr routes, w3,
                          [CacheGet cacheKey, RepoGetRoutes,
                           CacheSet cacheKey (RoutesValue routes) cacheTTL]))))"

text \<open>
  The loop \<open>for _, r := range routes\<close> of \<open>Service.GetRouteByPath\<close>: the first route
  the matcher accepts is written to the cache under the requested path and returned;
  \<open>None\<close> when the loop runs off the end of the list.
\<close>

fun scanRoutes :: "'w ports \<Rightarrow> string \<Rightarrow> route list \<Rightarrow> 'w \<Rightarrow> route option \<times> 'w \<times> call list" where
  "scanRoutes P p [] w = (None, w, [])"
| "scanRoutes P p (r # rs) w =
     (if match_route_path P (Path r) p then
        (let routeCacheKey = ''route:'' @ p;
             (serr, w1) = cache_set P routeCacheKey (RouteValue r) cacheTTL w
         in (Some r, w1,
             [MatchRoutePath (Path r) p, CacheSet routeCacheKey (RouteValue r) cacheTTL]))
      else
        (let (res, w1, cs) = scanRoutes P p rs w
         in (res, w1, MatchRoutePath (Path r) p # cs)))"

text \<open>\<open>Service.GetRouteByPath\<close>.\<close>

definition GetRouteByPath :: "'w ports \<Rightarrow> string \<Rightarrow> 'w \<Rightarrow> (error + route) \<times> 'w \<times> call list" where
  "GetRouteByPath P p w =
     (let routeCacheKey = ''route:'' @ p;
          (reply, w1) = cache_get_route P routeCacheKey w
      in case reply of
           Found r \<Rightarrow> (Inr r, w1, [CacheGet routeCacheKey])
         | _ \<Rightarrow>
             (let (loaded, w2, cs2) = loadRoutes P w1
              in case loaded of
                   Inl e \<Rightarrow> (Inl e, w2, CacheGet routeCacheKey # cs2)
                 | Inr routes \<Rightarrow>
                     (let (res, w3, cs3) = scanRoutes P p routes w2
                      in case res of
                           Some r \<Rightarrow> (Inr r, w3, CacheGet routeCacheKey # cs2 @ cs3)
                         | None \<Rightarrow>
                             (Inl ErrRouteNotFound, w3, CacheGet routeCacheKey # cs2 @ cs3))))"




text \<open>\<open>Service.UpdateRoute\<close>.\<close>

definition UpdateRoute :: "'w ports \<Rightarrow> route \<Rightarrow> 'w \<Rightarrow> error option \<times> 'w \<times> call list" where
  "UpdateRoute P r w =
     (let (err, w1) = repo_update_route P r w
      in case err of
           Some e \<Rightarrow> (Some e, w1, [RepoUpdateRoute r])
         | None \<Rightarrow>
             (let cacheKey = ''route:'' @ Path r;
                  (derr1, w2) = cache_delete P cacheKey w1;
                  (derr2, w3) = cache_delete P ''routes'' w2
              in (None, w3,
                  [RepoUpdateRoute r, CacheDelete cacheKey, CacheDelete ''routes''])))"

text \<open>\<open>Service.DeleteRoute\<close>.\<close>

definition DeleteRoute :: "'w ports \<Rightarrow> string \<Rightarrow> 'w \<Rightarrow> error option \<times> 'w \<times> call list" where
  "DeleteRoute P p w =
     (let (err, w1) = repo_delete_route P p w
      in case err of
           Some e \<Rightarrow> (Some e, w1, [RepoDeleteRoute p])
         | None \<Rightarrow>
             (let cacheKey = ''route:'' @ p;
                  (derr1, w2) = cache_delete P cacheKey w1;
                  (derr2, w3) = cache_delete P ''routes'' w2
              in (None, w3,
                  [RepoDeleteRoute p, CacheDelete cacheKey, CacheDelete ''routes''])))"


text \<open>The loop \<open>for _, m := range route.Methods\<close> of \<open>Service.IsMethodAllowed\<close>.\<close>

fun methodListed :: "string list \<Rightarrow> string \<Rightarrow> bool" where
  "methodListed [] method = False"
| "methodListed (m # ms) method = (if m = method then True else methodListed ms method)"

text \<open>\<open>Service.IsMethodAllowed\<close>, returning Go's pair \<open>(bool, error)\<close>.\<close>

definition IsMethodAllowed ::
  "'w ports \<Rightarrow> string \<Rightarrow> string \<Rightarrow> 'w \<Rightarrow> (bool \<times> error option) \<times> 'w \<times> call list" where
  "IsMethodAllowed P p method w =
     (let (res, w1, cs) = GetRouteByPath P p w
      in case res of
           Inl e \<Rightarrow> ((False, Some e), w1, cs)
         | Inr r \<Rightarrow> ((methodListed (Methods r) method, None), w1, cs))"

section \<open>JWT secret resolution (pkg/security/jwt_helper.go)\<close>

text \<open>
  The process environment maps names to values; \<open>os.Getenv\<close> yields the empty string
  for an unset name.
\<close>

definition Getenv :: "(string \<rightharpoonup> string) \<Rightarrow> string \<Rightarrow> string" where
  "Getenv env name = (case env name of None \<Rightarrow> [] | Some v \<Rightarrow> v)"

text \<open>
  \<open>config.LoadConfig\<close> and the configuration type are declared outside the sources
  at hand. The outcome of loading \<open>./config\<close> is a parameter of the model, an error or
  a configuration, of which \<open>GetJWTSecret\<close> reads \<open>Auth.JWTSecret\<close> only.
\<close>

record config =
  JWTSecret :: string

definition fallbackKey :: string where
  "fallbackKey = ''desenvolvimento_inseguro_nao_use_em_producao''"

text \<open>
  The line \<open>fmt.Println\<close> prints before the fallback is returned, as the bytes of the
  Go string literal: its three accented letters are UTF-8 pairs, \<open>0xC3 0xA9\<close> (e with
  acute), \<open>0xC3 0xA7\<close> (c with cedilla) and \<open>0xC3 0xA3\<close> (a with tilde).
\<close>

definition fallbackWarning :: string where
  "fallbackWarning =
     ''AVISO: Usando chave JWT de fallback! Isso '' @ [CHR 0xC3, CHR 0xA9] @
     '' inseguro para produ'' @ [CHR 0xC3, CHR 0xA7, CHR 0xC3, CHR 0xA3] @ ''o.''"

text \<open>
  \<open>GetJWTSecret\<close>: the bytes of the secret and the lines printed on standard output.
\<close>

definition GetJWTSecret :: "(string \<rightharpoonup> string) \<Rightarrow> error + config \<Rightarrow> string \<times> string list" where
  "GetJWTSecret env loaded =
     (let secret = Getenv env ''JWT_SECRET_KEY'' in
      if secret \<noteq> [] then (secret, [])
      else
        (let secret = Getenv env ''AG_AUTH_JWT_SECRET_KEY'' in
         if secret \<noteq> [] then (secret, [])
         else
           (case loaded of
              Inr cfg \<Rightarrow>
                if JWTSecret cfg \<noteq> [] then (JWTSecret cfg, [])
                else (fallbackKey, [fallbackWarning])
            | Inl err \<Rightarrow> (fallbackKey, [fallbackWarning]))))"

section \<open>Reading the call record\<close>

text \<open>The three components of what a Service operation returns.\<close>

definition result_of :: "'a \<times> 'w \<times> call list \<Rightarrow> 'a" where
  "result_of x = fst x"

definition world_of :: "'a \<times> 'w \<times> call list \<Rightarrow> 'w" where
  "world_of x = fst (snd x)"

definition calls_of :: "'a \<times> 'w \<times> call list \<Rightarrow> call list" where
  "calls_of x = snd (snd x)"


fun isRouteKeySet :: "call \<Rightarrow> bool" where
  "isRouteKeySet (CacheSet k v t) = (take 6 k = ''route:'')"
| "isRouteKeySet c = False"

fun isCacheDelete :: "call \<Rightarrow> bool" where
  "isCacheDelete (CacheDelete k) = True"
| "isCacheDelete c = False"

fun isMatcherCall :: "call \<Rightarrow> bool" where
  "isMatcherCall (MatchRoutePath pat p) = True"
| "isMatcherCall c = False"

fun isRepoCall :: "call \<Rightarrow> bool" where
  "isRepoCall RepoGetRoutes = True"
| "isRepoCall (RepoAddRoute r) = True"
| "isRepoCall (RepoUpdateRoute r) = True"
| "isRepoCall (RepoDeleteRoute p) = True"
| "isRepoCall (RepoUpdateMetrics p c t) = True"
| "isRepoCall c = False"

section \<open>An in-memory cache and repository\<close>

text \<open>
  Test doubles on which the theorems are run at concrete inputs. The cache is an
  association list; \<open>failing_reads\<close> and \<open>failing_writes\<close> name the keys on which \<open>Get\<close>,
  respectively \<open>Set\<close> and \<open>Delete\<close>, report an error; the repository is a list of routes
  with a switch that makes every call fail. The matcher double accepts equal paths and,
  for a pattern ending in \<open>*\<close>, every path that extends the pattern's prefix.
\<close>

record mem_world =
  entries :: "(string \<times> cache_value) list"
  failing_reads :: "string list"
  failing_writes :: "string list"
  stored_routes :: "route list"
  repo_failing :: bool

definition cacheUnavailable :: error where
  "cacheUnavailable = OtherError ''cache unavailable''"

definition storeUnavailable :: error where
  "storeUnavailable = OtherError ''store unavailable''"

definition memGetRoute :: "string \<Rightarrow> mem_world \<Rightarrow> route get_reply \<times> mem_world" where
  "memGetRoute k w =
     (if k \<in> set (failing_reads w) then (GetFailed cacheUnavailable, w)
      else case map_of (entries w) k of
             Some (RouteValue r) \<Rightarrow> (Found r, w)
           | _ \<Rightarrow> (NotFound, w))"

definition memGetRoutes :: "string \<Rightarrow> mem_world \<Rightarrow> route list get_reply \<times> mem_world" where
  "memGetRoutes k w =
     (if k \<in> set (failing_reads w) then (GetFailed cacheUnavailable, w)
      else case map_of (entries w) k of
             Some (RoutesValue rs) \<Rightarrow> (Found rs, w)
           | _ \<Rightarrow> (NotFound, w))"

definition memSet :: "string \<Rightarrow> cache_value \<Rightarrow> int \<Rightarrow> mem_world \<Rightarrow> error option \<times> mem_world" where
  "memSet k v ttl w =
     (if k \<in> set (failing_writes w) then (Some cacheUnavailable, w)
      else (None, w\<lparr>entries := (k, v) # entries w\<rparr>))"

definition memDelete :: "string \<Rightarrow> mem_world \<Rightarrow> error option \<times> mem_world" where
  "memDelete k w =
     (if k \<in> set (failing_writes w) then (Some cacheUnavailable, w)
      else (None, w\<lparr>entries := filter (\<lambda>kv. fst kv \<noteq> k) (entries w)\<rparr>))"

definition memRepoGetRoutes :: "mem_world \<Rightarrow> (route list \<times> error option) \<times> mem_world" where
  "memRepoGetRoutes w =
     (if repo_failing w then (([], Some storeUnavailable), w)
      else ((stored_routes w, None), w))"

definition memRepoAddRoute :: "route \<Rightarrow> mem_world \<Rightarrow> error option \<times> mem_world" where
  "memRepoAddRoute r w =
     (if repo_failing w then (Some storeUnavailable, w)
      else (None, w\<lparr>stored_routes := stored_routes w @ [r]\<rparr>))"

definition memRepoUpdateRoute :: "route \<Rightarrow> mem_world \<Rightarrow> error option \<times> mem_world" where
  "memRepoUpdateRoute r w =
     (if repo_failing w then (Some storeUnavailable, w)
      else (None, w\<lparr>stored_routes :=
                       map (\<lambda>x. if Path x = Path r then r else x) (stored_routes w)\<rparr>))"

definition memRepoDeleteRoute :: "string \<Rightarrow> mem_world \<Rightarrow> error option \<times> mem_world" where
  "memRepoDeleteRoute p w =
     (if repo_failing w then (Some storeUnavailable, w)
      else (None, w\<lparr>stored_routes := filter (\<lambda>x. Path x \<noteq> p) (stored_routes w)\<rparr>))"

definition memRepoUpdateMetrics ::
  "string \<Rightarrow> 64 word \<Rightarrow> 64 word \<Rightarrow> mem_world \<Rightarrow> error option \<times> mem_world" where
  "memRepoUpdateMetrics p c t w =
     (if repo_failing w then (Some storeUnavailable, w)
      else (None, w\<lparr>stored_routes :=
                       map (\<lambda>x. if Path x = p
                                then x\<lparr>CallCount := c, TotalResponseTime := t\<rparr> else x)
                           (stored_routes w)\<rparr>))"

definition prefixMatch :: "string \<Rightarrow> string \<Rightarrow> bool" where
  "prefixMatch pat p =
     (if pat \<noteq> [] \<and> last pat = CHR ''*'' then take (length pat - 1) p = butlast pat
      else pat = p)"

definition memPorts :: "mem_world ports" where
  "memPorts =
     \<lparr>cache_get_route = memGetRoute,
      cache_get_routes = memGetRoutes,
      cache_set = memSet,
      cache_delete = memDelete,
      repo_get_routes = memRepoGetRoutes,
      repo_add_route = memRepoAddRoute,
      repo_update_route = memRepoUpdateRoute,
      repo_delete_route = memRepoDeleteRoute,
      repo_update_metrics = memRepoUpdateMetrics,
      match_route_path = prefixMatch\<rparr>"

text \<open>A route for another prefix, and two routes that both accept \<open>/a/b\<close>.\<close>

definition routeUsers :: route where
  "routeUsers =
     \<lparr>Path = ''/users/*'', ServiceURL = ''http://users'', Methods = [''GET''],
      IsActive = True, CallCount = 0, TotalResponseTime = 0\<rparr>"

definition routeWild :: route where
  "routeWild =
     \<lparr>Path = ''/a/*'', ServiceURL = ''http://wild'', Methods = [''GET'', ''POST''],
      IsActive = True, CallCount = 0, TotalResponseTime = 0\<rparr>"

definition routeExact :: route where
  "routeExact =
     \<lparr>Path = ''/a/b'', ServiceURL = ''http://exact'', Methods = [],
      IsActive = True, CallCount = 0, TotalResponseTime = 0\<rparr>"

text \<open>
  Worlds: an empty, healthy cache in front of a store holding the three routes; the same
  with the read of \<open>routes\<close> failing; with every cache write and delete failing; with
  the store failing; and with \<open>/a/b\<close> already cached individually.
\<close>

definition worldHealthy :: mem_world where
  "worldHealthy =
     \<lparr>entries = [], failing_reads = [], failing_writes = [],
      stored_routes = [routeUsers, routeWild, routeExact], repo_failing = False\<rparr>"

definition worldListReadFails :: mem_world where
  "worldListReadFails = worldHealthy\<lparr>failing_reads := [''routes'']\<rparr>"

definition worldWritesFail :: mem_world where
  "worldWritesFail =
     worldHealthy\<lparr>failing_writes := [''routes'', ''route:/a/b'', ''route:/a/*'']\<rparr>"

definition worldStoreFails :: mem_world where
  "worldStoreFails = worldHealthy\<lparr>repo_failing := True\<rparr>"

definition worldCached :: mem_world where
  "worldCached = worldHealthy\<lparr>entries := [(''route:/a/b'', RouteValue routeExact)]\<rparr>"

text \<open>
  A warm cache, in which both individual entries and the list are stored; and the same
  with the delete of \<open>route:/a/b\<close> failing.
\<close>

definition worldWarm :: mem_world where
  "worldWarm =
     worldHealthy\<lparr>entries :=
       [(''route:/a/*'', RouteValue routeWild), (''route:/a/b'', RouteValue routeExact),
        (''routes'', RoutesValue [routeUsers, routeWild, routeExact])]\<rparr>"

definition worldSweepFails :: mem_world where
  "worldSweepFails = worldWarm\<lparr>failing_writes := [''route:/a/b'']\<rparr>"

text \<open>Environments and a configuration for \<open>GetJWTSecret\<close>.\<close>

definition envBoth :: "string \<rightharpoonup> string" where
  "envBoth = [''JWT_SECRET_KEY'' \<mapsto> ''primary'', ''AG_AUTH_JWT_SECRET_KEY'' \<mapsto> ''alternate'']"

definition envAlternate :: "string \<rightharpoonup> string" where
  "envAlternate = [''JWT_SECRET_KEY'' \<mapsto> [], ''AG_AUTH_JWT_SECRET_KEY'' \<mapsto> ''alternate'']"

definition cfgSecret :: config where
  "cfgSecret = \<lparr>JWTSecret = ''from-config''\<rparr>"

definition cfgBlank :: config where
  "cfgBlank = \<lparr>JWTSecret = []\<rparr>"

section \<open>Auxiliary facts\<close>

lemmas mem_defs = memPorts_def memGetRoute_def memGetRoutes_def memSet_def memDelete_def
  memRepoGetRoutes_def memRepoAddRoute_def memRepoUpdateRoute_def memRepoDeleteRoute_def
  memRepoUpdateMetrics_def prefixMatch_def routeUsers_def routeWild_def routeExact_def
  worldHealthy_def worldListReadFails_def worldWritesFail_def worldStoreFails_def
  worldCached_def worldWarm_def worldSweepFails_def cacheUnavailable_def storeUnavailable_def

lemmas acc_defs = result_of_def world_of_def calls_of_def

subsection \<open>The scan\<close>

lemma scanRoutes_no_match:
  "\<forall>r\<in>set rs. \<not> match_route_path P (Path r) p \<Longrightarrow>
   scanRoutes P p rs w = (None, w, map (\<lambda>r. MatchRoutePath (Path r) p) rs)"
  by (induction rs) simp_all

lemma scanRoutes_first_match:
  "\<forall>x\<in>set pre. \<not> match_route_path P (Path x) p \<Longrightarrow> match_route_path P (Path r) p \<Longrightarrow>
   scanRoutes P p (pre @ r # post) w =
     (Some r, snd (cache_set P (''route:'' @ p) (RouteValue r) cacheTTL w),
      map (\<lambda>x. MatchRoutePath (Path x) p) pre @
      [MatchRoutePath (Path r) p, CacheSet (''route:'' @ p) (RouteValue r) cacheTTL])"
  by (induction pre) (simp_all add: Let_def split: prod.splits)


lemma filter_matcher_map:
  "filter isMatcherCall (map (\<lambda>r. MatchRoutePath (Path r) p) rs) =
   map (\<lambda>r. MatchRoutePath (Path r) p) rs"
  by (induction rs) simp_all

lemma filter_routekey_map:
  "filter isRouteKeySet (map (\<lambda>r. MatchRoutePath (Path r) p) rs) = []"
  by (induction rs) simp_all


subsection \<open>Loading the list\<close>

lemma loadRoutes_calls_cases:
  "calls_of (loadRoutes P w) = [CacheGet ''routes''] \<or>
   calls_of (loadRoutes P w) = [CacheGet ''routes'', RepoGetRoutes] \<or>
   (\<exists>rs. calls_of (loadRoutes P w) =
      [CacheGet ''routes'', RepoGetRoutes, CacheSet ''routes'' (RoutesValue rs) cacheTTL])"
  by (simp add: loadRoutes_def Let_def acc_defs
      split: prod.splits get_reply.splits option.splits)

lemma loadRoutes_no_matcher: "filter isMatcherCall (calls_of (loadRoutes P w)) = []"
  using loadRoutes_calls_cases[of P w] by auto

lemma loadRoutes_no_route_key: "filter isRouteKeySet (calls_of (loadRoutes P w)) = []"
  using loadRoutes_calls_cases[of P w] by auto


lemma loadRoutes_result:
  assumes "fst (cache_get_routes P ''routes'' w) = Found rs \<or>
     (fst (cache_get_routes P ''routes'' w) = NotFound \<and>
      fst (repo_get_routes P (snd (cache_get_routes P ''routes'' w))) = (rs, None))"
  shows "result_of (loadRoutes P w) = Inr rs"
  using assms
  by (cases "cache_get_routes P ''routes'' w")
     (auto simp: loadRoutes_def Let_def acc_defs split: prod.splits)


subsection \<open>The two ways through \<open>GetRouteByPath\<close>\<close>

lemma GetRouteByPath_hit_unfold:
  assumes "fst (cache_get_route P (''route:'' @ p) w) = Found r"
  shows "GetRouteByPath P p w =
     (Inr r, snd (cache_get_route P (''route:'' @ p) w), [CacheGet (''route:'' @ p)])"
  using assms
  by (cases "cache_get_route P (''route:'' @ p) w") (simp add: GetRouteByPath_def)

lemma GetRouteByPath_miss_unfold:
  assumes "\<forall>r. fst (cache_get_route P (''route:'' @ p) w) \<noteq> Found r"
    and "result_of (loadRoutes P (snd (cache_get_route P (''route:'' @ p) w))) = Inr rs"
  shows "GetRouteByPath P p w =
     (let L = loadRoutes P (snd (cache_get_route P (''route:'' @ p) w));
          S = scanRoutes P p rs (world_of L)
      in (case result_of S of Some r \<Rightarrow> Inr r | None \<Rightarrow> Inl ErrRouteNotFound,
          world_of S, CacheGet (''route:'' @ p) # calls_of L @ calls_of S))"
  using assms
  by (cases "fst (cache_get_route P (''route:'' @ p) w)")
     (auto simp: GetRouteByPath_def Let_def acc_defs
        split: prod.splits option.splits sum.splits)




subsection \<open>The other operations\<close>

lemma methodListed_iff: "methodListed ms m \<longleftrightarrow> m \<in> set ms"
  by (induction ms) auto
















section \<open>Route lookup\<close>

text \<open>
  C1. The claim: when the individual-route cache misses and the read of the \<open>routes\<close>
  list cache returns an error, \<open>GetRouteByPath\<close> still loads the list from the
  repository, so that the outcome is the one of a cache miss. The code does not: the
  error branch only logs (its comment announces the repository fetch, which sits in
  the final \<open>else\<close>), the list stays empty and the scan finds nothing. Below, the
  store holds \<open>/a/*\<close>, which accepts \<open>/a/b\<close>; with a failing list read the lookup
  answers \<open>ErrRouteNotFound\<close> after two cache reads and no repository call, whereas
  with a plain miss in the same world it answers the route.
\<close>

theorem GetRouteByPath_list_read_error_skips_repository:
  "fst (cache_get_route memPorts (''route:'' @ ''/a/b'') worldListReadFails) = NotFound \<and>
   fst (cache_get_routes memPorts ''routes'' worldListReadFails) = GetFailed cacheUnavailable \<and>
   fst (repo_get_routes memPorts worldListReadFails) =
     ([routeUsers, routeWild, routeExact], None) \<and>
   match_route_path memPorts (Path routeWild) ''/a/b'' \<and>
   GetRouteByPath memPorts ''/a/b'' worldListReadFails =
     (Inl ErrRouteNotFound, worldListReadFails,
      [CacheGet ''route:/a/b'', CacheGet ''routes'']) \<and>
   fst (cache_get_route memPorts (''route:'' @ ''/a/b'') worldHealthy) = NotFound \<and>
   fst (cache_get_routes memPorts ''routes'' worldHealthy) = NotFound \<and>
   fst (repo_get_routes memPorts worldHealthy) =
     ([routeUsers, routeWild, routeExact], None) \<and>
   result_of (GetRouteByPath memPorts ''/a/b'' worldHealthy) = Inr routeWild"
  by (simp add: GetRouteByPath_def loadRoutes_def Let_def mem_defs acc_defs)

text \<open>
  C3. Whenever the individual cache does not hit for the requested path \<open>p\<close> (a miss or
  a read error), the list is resolved to \<open>rs\<close> and the matcher accepts no route of
  \<open>rs\<close> for \<open>p\<close>, \<open>GetRouteByPath\<close> returns \<open>ErrRouteNotFound\<close> and no route, and it
  has asked the matcher about every route of \<open>rs\<close>, once each, in list order.
\<close>

theorem GetRouteByPath_no_match:
  assumes "\<forall>r. fst (cache_get_route P (''route:'' @ p) w) \<noteq> Found r"
    and "result_of (loadRoutes P (snd (cache_get_route P (''route:'' @ p) w))) = Inr rs"
    and "\<forall>r\<in>set rs. \<not> match_route_path P (Path r) p"
  shows "result_of (GetRouteByPath P p w) = Inl ErrRouteNotFound \<and>
         filter isMatcherCall (calls_of (GetRouteByPath P p w)) =
           map (\<lambda>r. MatchRoutePath (Path r) p) rs"
  using assms(3)
  by (simp add: GetRouteByPath_miss_unfold[OF assms(1,2)] Let_def scanRoutes_no_match
      acc_defs[where 'a="route option"] acc_defs[where 'a="error + route"]
      filter_matcher_map loadRoutes_no_matcher)

theorem GetRouteByPath_no_match_witness:
  "fst (cache_get_route memPorts (''route:'' @ ''/zzz'') worldHealthy) = NotFound \<and>
   result_of (loadRoutes memPorts worldHealthy) = Inr [routeUsers, routeWild, routeExact] \<and>
   \<not> match_route_path memPorts (Path routeUsers) ''/zzz'' \<and>
   \<not> match_route_path memPorts (Path routeWild) ''/zzz'' \<and>
   \<not> match_route_path memPorts (Path routeExact) ''/zzz'' \<and>
   result_of (GetRouteByPath memPorts ''/zzz'' worldHealthy) = Inl ErrRouteNotFound \<and>
   filter isMatcherCall (calls_of (GetRouteByPath memPorts ''/zzz'' worldHealthy)) =
     [MatchRoutePath ''/users/*'' ''/zzz'', MatchRoutePath ''/a/*'' ''/zzz'',
      MatchRoutePath ''/a/b'' ''/zzz'']"
proof -
  have h1: "\<forall>r. fst (cache_get_route memPorts (''route:'' @ ''/zzz'') worldHealthy) \<noteq> Found r"
    by (simp add: mem_defs)
  have h2: "result_of (loadRoutes memPorts
              (snd (cache_get_route memPorts (''route:'' @ ''/zzz'') worldHealthy))) =
            Inr [routeUsers, routeWild, routeExact]"
    by (simp add: loadRoutes_def Let_def mem_defs acc_defs)
  have h3: "\<forall>r\<in>set [routeUsers, routeWild, routeExact].
              \<not> match_route_path memPorts (Path r) ''/zzz''"
    by (simp add: mem_defs)
  have w1: "snd (cache_get_route memPorts (''route:'' @ ''/zzz'') worldHealthy) = worldHealthy"
    by (simp add: mem_defs)
  show ?thesis
    using GetRouteByPath_no_match[OF h1 h2 h3] h2 h3
    by (simp add: w1) (simp add: mem_defs)
qed

text \<open>
  C4. When the lookup falls through to the scan, the routes are visited in the order
  in which the cache (on a hit of \<open>routes\<close>) or the repository (on a miss) returned
  the list, and the first one the matcher accepts is returned: if that list is
  \<open>pre @ r # post\<close>, no route of \<open>pre\<close> is accepted and \<open>r\<close> is, the result is \<open>r\<close>
  whatever \<open>post\<close> holds (so of two accepted routes the earlier one wins), and the
  matcher has been asked about \<open>pre\<close> and \<open>r\<close>, in that order, and about nothing else.
\<close>

theorem GetRouteByPath_first_match:
  assumes "\<forall>r. fst (cache_get_route P (''route:'' @ p) w) \<noteq> Found r"
    and "w1 = snd (cache_get_route P (''route:'' @ p) w)"
    and "fst (cache_get_routes P ''routes'' w1) = Found (pre @ r # post) \<or>
         (fst (cache_get_routes P ''routes'' w1) = NotFound \<and>
          fst (repo_get_routes P (snd (cache_get_routes P ''routes'' w1))) =
            (pre @ r # post, None))"
    and "\<forall>x\<in>set pre. \<not> match_route_path P (Path x) p"
    and "match_route_path P (Path r) p"
  shows "result_of (GetRouteByPath P p w) = Inr r \<and>
         filter isMatcherCall (calls_of (GetRouteByPath P p w)) =
           map (\<lambda>x. MatchRoutePath (Path x) p) (pre @ [r])"
proof -
  have loaded: "result_of (loadRoutes P (snd (cache_get_route P (''route:'' @ p) w))) =
                Inr (pre @ r # post)"
    using loadRoutes_result[OF assms(3)] by (simp add: assms(2))
  show ?thesis
    using assms(4,5)
    by (simp add: GetRouteByPath_miss_unfold[OF assms(1) loaded] Let_def
        scanRoutes_first_match acc_defs[where 'a="route option"]
        acc_defs[where 'a="error + route"] filter_matcher_map loadRoutes_no_matcher)
qed

theorem GetRouteByPath_first_match_witness:
  "fst (cache_get_route memPorts (''route:'' @ ''/a/b'') worldHealthy) = NotFound \<and>
   fst (cache_get_routes memPorts ''routes'' worldHealthy) = NotFound \<and>
   fst (repo_get_routes memPorts worldHealthy) =
     ([routeUsers] @ routeWild # [routeExact], None) \<and>
   \<not> match_route_path memPorts (Path routeUsers) ''/a/b'' \<and>
   match_route_path memPorts (Path routeWild) ''/a/b'' \<and>
   match_route_path memPorts (Path routeExact) ''/a/b'' \<and>
   result_of (GetRouteByPath memPorts ''/a/b'' worldHealthy) = Inr routeWild \<and>
   filter isMatcherCall (calls_of (GetRouteByPath memPorts ''/a/b'' worldHealthy)) =
     [MatchRoutePath ''/users/*'' ''/a/b'', MatchRoutePath ''/a/*'' ''/a/b'']"
proof -
  have h1: "\<forall>r. fst (cache_get_route memPorts (''route:'' @ ''/a/b'') worldHealthy) \<noteq> Found r"
    by (simp add: mem_defs)
  have h2: "worldHealthy = snd (cache_get_route memPorts (''route:'' @ ''/a/b'') worldHealthy)"
    by (simp add: mem_defs)
  have h3a: "fst (cache_get_routes memPorts ''routes'' worldHealthy) = NotFound"
    by (simp add: mem_defs)
  have h3b: "fst (repo_get_routes memPorts (snd (cache_get_routes memPorts ''routes''
               worldHealthy))) = ([routeUsers] @ routeWild # [routeExact], None)"
    by (simp add: mem_defs)
  have h3c: "fst (repo_get_routes memPorts worldHealthy) =
               ([routeUsers] @ routeWild # [routeExact], None)"
    by (simp add: mem_defs)
  have h3: "fst (cache_get_routes memPorts ''routes'' worldHealthy) =
              Found ([routeUsers] @ routeWild # [routeExact]) \<or>
            (fst (cache_get_routes memPorts ''routes'' worldHealthy) = NotFound \<and>
             fst (repo_get_routes memPorts (snd (cache_get_routes memPorts ''routes''
               worldHealthy))) = ([routeUsers] @ routeWild # [routeExact], None))"
    using h3a h3b by simp
  have h4: "\<forall>x\<in>set [routeUsers]. \<not> match_route_path memPorts (Path x) ''/a/b''"
    by (simp add: mem_defs)
  have h5: "match_route_path memPorts (Path routeWild) ''/a/b''"
    by (simp add: mem_defs)
  have h6: "match_route_path memPorts (Path routeExact) ''/a/b''"
    by (simp add: mem_defs)
  have h0: "fst (cache_get_route memPorts (''route:'' @ ''/a/b'') worldHealthy) = NotFound"
    by (simp add: mem_defs)
  have p1: "Path routeUsers = ''/users/*''" "Path routeWild = ''/a/*''"
    by (simp_all add: mem_defs)
  show ?thesis
    using GetRouteByPath_first_match[OF h1 h2 h3 h4 h5] h0 h3a h3c h4 h5 h6
    by (simp add: p1)
qed

text \<open>
  C5. If the individual-route cache answers the key \<open>route:\<close> followed by \<open>p\<close> with a
  route, \<open>GetRouteByPath\<close> returns that route at once: the cache read is the only call
  it issues, so there is no repository call, no matcher call and no scan.
\<close>

theorem GetRouteByPath_individual_hit:
  assumes "fst (cache_get_route P (''route:'' @ p) w) = Found r"
  shows "result_of (GetRouteByPath P p w) = Inr r \<and>
         calls_of (GetRouteByPath P p w) = [CacheGet (''route:'' @ p)] \<and>
         filter isRepoCall (calls_of (GetRouteByPath P p w)) = [] \<and>
         filter isMatcherCall (calls_of (GetRouteByPath P p w)) = []"
  by (simp add: GetRouteByPath_hit_unfold[OF assms] acc_defs)

theorem GetRouteByPath_individual_hit_witness:
  "fst (cache_get_route memPorts (''route:'' @ ''/a/b'') worldCached) = Found routeExact \<and>
   result_of (GetRouteByPath memPorts ''/a/b'' worldCached) = Inr routeExact \<and>
   calls_of (GetRouteByPath memPorts ''/a/b'' worldCached) = [CacheGet ''route:/a/b''] \<and>
   filter isRepoCall (calls_of (GetRouteByPath memPorts ''/a/b'' worldCached)) = [] \<and>
   filter isMatcherCall (calls_of (GetRouteByPath memPorts ''/a/b'' worldCached)) = []"
proof -
  have h: "fst (cache_get_route memPorts (''route:'' @ ''/a/b'') worldCached) = Found routeExact"
    by (simp add: mem_defs)
  show ?thesis
    using GetRouteByPath_individual_hit[OF h] h by simp
qed

text \<open>
  C6. When the scan finds the first accepted route \<open>r\<close> for the requested path \<open>p\<close>,
  \<open>GetRouteByPath\<close> issues exactly one write to the individual-route cache: \<open>r\<close> under
  \<open>route:\<close> followed by the requested \<open>p\<close> (not by \<open>Path r\<close>), with the 5-minute TTL,
  that is 300000000000 ns. The write is carried out: the world the call leaves behind
  is the one the cache port's \<open>Set\<close> returns for that key, value and TTL, applied to
  the world left by the loading of the list. The result is \<open>r\<close> for every behaviour
  of the cache port, in particular when the write fails. The witness runs both a
  failing write and a healthy one, after which the cache answers \<open>route:/a/b\<close> with
  the stored route.
\<close>

theorem GetRouteByPath_caches_match:
  assumes "\<forall>r. fst (cache_get_route P (''route:'' @ p) w) \<noteq> Found r"
    and "result_of (loadRoutes P (snd (cache_get_route P (''route:'' @ p) w))) =
         Inr (pre @ r # post)"
    and "\<forall>x\<in>set pre. \<not> match_route_path P (Path x) p"
    and "match_route_path P (Path r) p"
  shows "result_of (GetRouteByPath P p w) = Inr r \<and>
         filter isRouteKeySet (calls_of (GetRouteByPath P p w)) =
           [CacheSet (''route:'' @ p) (RouteValue r) cacheTTL] \<and>
         cacheTTL = 5 * 60 * 1000000000 \<and>
         world_of (GetRouteByPath P p w) =
           snd (cache_set P (''route:'' @ p) (RouteValue r) cacheTTL
                  (world_of (loadRoutes P (snd (cache_get_route P (''route:'' @ p) w)))))"
  using assms(3,4)
  by (simp add: GetRouteByPath_miss_unfold[OF assms(1,2)] Let_def scanRoutes_first_match
      acc_defs[where 'a="route option"] acc_defs[where 'a="error + route"]
      filter_routekey_map loadRoutes_no_route_key cacheTTL_def Minute_def)

theorem GetRouteByPath_caches_match_witness:
  "fst (cache_get_route memPorts (''route:'' @ ''/a/b'') worldWritesFail) = NotFound \<and>
   result_of (loadRoutes memPorts worldWritesFail) =
     Inr ([routeUsers] @ routeWild # [routeExact]) \<and>
   \<not> match_route_path memPorts (Path routeUsers) ''/a/b'' \<and>
   match_route_path memPorts (Path routeWild) ''/a/b'' \<and>
   fst (cache_set memPorts ''route:/a/b'' (RouteValue routeWild) cacheTTL worldWritesFail) =
     Some cacheUnavailable \<and>
   result_of (GetRouteByPath memPorts ''/a/b'' worldWritesFail) = Inr routeWild \<and>
   filter isRouteKeySet (calls_of (GetRouteByPath memPorts ''/a/b'' worldWritesFail)) =
     [CacheSet ''route:/a/b'' (RouteValue routeWild) 300000000000] \<and>
   world_of (GetRouteByPath memPorts ''/a/b'' worldWritesFail) = worldWritesFail \<and>
   fst (cache_get_route memPorts (''route:'' @ ''/a/b'') worldHealthy) = NotFound \<and>
   result_of (loadRoutes memPorts worldHealthy) =
     Inr ([routeUsers] @ routeWild # [routeExact]) \<and>
   result_of (GetRouteByPath memPorts ''/a/b'' worldHealthy) = Inr routeWild \<and>
   filter isRouteKeySet (calls_of (GetRouteByPath memPorts ''/a/b'' worldHealthy)) =
     [CacheSet ''route:/a/b'' (RouteValue routeWild) 300000000000] \<and>
   entries (world_of (GetRouteByPath memPorts ''/a/b'' worldHealthy)) =
     [(''route:/a/b'', RouteValue routeWild),
      (''routes'', RoutesValue [routeUsers, routeWild, routeExact])] \<and>
   fst (cache_get_route memPorts ''route:/a/b''
          (world_of (GetRouteByPath memPorts ''/a/b'' worldHealthy))) = Found routeWild"
proof -
  have h3: "\<forall>x\<in>set [routeUsers]. \<not> match_route_path memPorts (Path x) ''/a/b''"
    by (simp add: mem_defs)
  have h4: "match_route_path memPorts (Path routeWild) ''/a/b''"
    by (simp add: mem_defs)
  have f0: "fst (cache_get_route memPorts (''route:'' @ ''/a/b'') worldWritesFail) = NotFound"
    and f1: "\<forall>r. fst (cache_get_route memPorts (''route:'' @ ''/a/b'') worldWritesFail) \<noteq> Found r"
    and fw: "snd (cache_get_route memPorts (''route:'' @ ''/a/b'') worldWritesFail) =
             worldWritesFail"
    by (simp_all add: mem_defs)
  have f2: "result_of (loadRoutes memPorts
              (snd (cache_get_route memPorts (''route:'' @ ''/a/b'') worldWritesFail))) =
            Inr ([routeUsers] @ routeWild # [routeExact])"
    and f5: "snd (cache_set memPorts (''route:'' @ ''/a/b'') (RouteValue routeWild) cacheTTL
               (world_of (loadRoutes memPorts
                  (snd (cache_get_route memPorts (''route:'' @ ''/a/b'') worldWritesFail))))) =
             worldWritesFail"
    and f6: "fst (cache_set memPorts ''route:/a/b'' (RouteValue routeWild) cacheTTL
               worldWritesFail) = Some cacheUnavailable"
    by (simp_all add: loadRoutes_def Let_def mem_defs acc_defs)
  have g0: "fst (cache_get_route memPorts (''route:'' @ ''/a/b'') worldHealthy) = NotFound"
    and g1: "\<forall>r. fst (cache_get_route memPorts (''route:'' @ ''/a/b'') worldHealthy) \<noteq> Found r"
    and gw: "snd (cache_get_route memPorts (''route:'' @ ''/a/b'') worldHealthy) = worldHealthy"
    by (simp_all add: mem_defs)
  have g2: "result_of (loadRoutes memPorts
              (snd (cache_get_route memPorts (''route:'' @ ''/a/b'') worldHealthy))) =
            Inr ([routeUsers] @ routeWild # [routeExact])"
    and g5: "entries (snd (cache_set memPorts (''route:'' @ ''/a/b'') (RouteValue routeWild)
               cacheTTL (world_of (loadRoutes memPorts
                  (snd (cache_get_route memPorts (''route:'' @ ''/a/b'') worldHealthy)))))) =
             [(''route:/a/b'', RouteValue routeWild),
              (''routes'', RoutesValue [routeUsers, routeWild, routeExact])]"
    and g6: "fst (cache_get_route memPorts ''route:/a/b''
               (snd (cache_set memPorts (''route:'' @ ''/a/b'') (RouteValue routeWild)
                 cacheTTL (world_of (loadRoutes memPorts
                   (snd (cache_get_route memPorts (''route:'' @ ''/a/b'') worldHealthy))))))) =
             Found routeWild"
    by (simp_all add: loadRoutes_def Let_def mem_defs acc_defs)
  note soft = GetRouteByPath_caches_match[OF f1 f2 h3 h4]
  note real = GetRouteByPath_caches_match[OF g1 g2 h3 h4]
  from soft f5 have a:
    "result_of (GetRouteByPath memPorts ''/a/b'' worldWritesFail) = Inr routeWild"
    "filter isRouteKeySet (calls_of (GetRouteByPath memPorts ''/a/b'' worldWritesFail)) =
       [CacheSet ''route:/a/b'' (RouteValue routeWild) 300000000000]"
    "world_of (GetRouteByPath memPorts ''/a/b'' worldWritesFail) = worldWritesFail"
    by simp_all
  from real g5 g6 have b:
    "result_of (GetRouteByPath memPorts ''/a/b'' worldHealthy) = Inr routeWild"
    "filter isRouteKeySet (calls_of (GetRouteByPath memPorts ''/a/b'' worldHealthy)) =
       [CacheSet ''route:/a/b'' (RouteValue routeWild) 300000000000]"
    "entries (world_of (GetRouteByPath memPorts ''/a/b'' worldHealthy)) =
       [(''route:/a/b'', RouteValue routeWild),
        (''routes'', RoutesValue [routeUsers, routeWild, routeExact])]"
    "fst (cache_get_route memPorts ''route:/a/b''
          (world_of (GetRouteByPath memPorts ''/a/b'' worldHealthy))) = Found routeWild"
    by simp_all
  from f2 g2 have l:
    "result_of (loadRoutes memPorts worldWritesFail) =
       Inr ([routeUsers] @ routeWild # [routeExact])"
    "result_of (loadRoutes memPorts worldHealthy) =
       Inr ([routeUsers] @ routeWild # [routeExact])"
    by (simp_all only: fw gw)
  from h3 have h3': "\<not> match_route_path memPorts (Path routeUsers) ''/a/b''"
    by simp
  from a b l f0 g0 f6 h3' h4 show ?thesis
    by (simp only: simp_thms)
qed



section \<open>Method check\<close>

text \<open>
  C7. \<open>IsMethodAllowed\<close> for path \<open>p\<close> and method \<open>m\<close> returns \<open>(true, nil)\<close> exactly
  when \<open>GetRouteByPath\<close> for \<open>p\<close> succeeds with a route whose \<open>Methods\<close> contain \<open>m\<close>;
  it returns \<open>(false, nil)\<close> when the route resolves and \<open>m\<close> is absent (an empty
  \<open>Methods\<close> included); and when \<open>GetRouteByPath\<close> fails it returns \<open>false\<close> with that
  very error. It issues the calls of \<open>GetRouteByPath\<close> and no other.
\<close>

theorem IsMethodAllowed_result:
  "(result_of (IsMethodAllowed P p m w) = (True, None) \<longleftrightarrow>
      (\<exists>r. result_of (GetRouteByPath P p w) = Inr r \<and> m \<in> set (Methods r))) \<and>
   (\<forall>r. result_of (GetRouteByPath P p w) = Inr r \<and> m \<notin> set (Methods r) \<longrightarrow>
      result_of (IsMethodAllowed P p m w) = (False, None)) \<and>
   (\<forall>e. result_of (GetRouteByPath P p w) = Inl e \<longrightarrow>
      result_of (IsMethodAllowed P p m w) = (False, Some e)) \<and>
   world_of (IsMethodAllowed P p m w) = world_of (GetRouteByPath P p w) \<and>
   calls_of (IsMethodAllowed P p m w) = calls_of (GetRouteByPath P p w)"
  by (cases "GetRouteByPath P p w"; cases "fst (GetRouteByPath P p w)")
     (auto simp: IsMethodAllowed_def acc_defs methodListed_iff)

theorem IsMethodAllowed_result_witness:
  "result_of (GetRouteByPath memPorts ''/a/b'' worldHealthy) = Inr routeWild \<and>
   Methods routeWild = [''GET'', ''POST''] \<and>
   result_of (IsMethodAllowed memPorts ''/a/b'' ''POST'' worldHealthy) = (True, None) \<and>
   result_of (IsMethodAllowed memPorts ''/a/b'' ''DELETE'' worldHealthy) = (False, None) \<and>
   result_of (GetRouteByPath memPorts ''/a/b'' worldCached) = Inr routeExact \<and>
   Methods routeExact = [] \<and>
   result_of (IsMethodAllowed memPorts ''/a/b'' ''GET'' worldCached) = (False, None) \<and>
   result_of (GetRouteByPath memPorts ''/zzz'' worldHealthy) = Inl ErrRouteNotFound \<and>
   result_of (IsMethodAllowed memPorts ''/zzz'' ''GET'' worldHealthy) =
     (False, Some ErrRouteNotFound) \<and>
   result_of (GetRouteByPath memPorts ''/a/b'' worldStoreFails) = Inl storeUnavailable \<and>
   result_of (IsMethodAllowed memPorts ''/a/b'' ''GET'' worldStoreFails) =
     (False, Some storeUnavailable)"
proof -
  have g1: "result_of (GetRouteByPath memPorts ''/a/b'' worldHealthy) = Inr routeWild"
    by (simp add: GetRouteByPath_def loadRoutes_def Let_def mem_defs acc_defs)
  have g2: "result_of (GetRouteByPath memPorts ''/a/b'' worldCached) = Inr routeExact"
    by (simp add: GetRouteByPath_def loadRoutes_def Let_def mem_defs acc_defs)
  have g3: "result_of (GetRouteByPath memPorts ''/zzz'' worldHealthy) = Inl ErrRouteNotFound"
    by (simp add: GetRouteByPath_def loadRoutes_def Let_def mem_defs acc_defs)
  have g4: "result_of (GetRouteByPath memPorts ''/a/b'' worldStoreFails) = Inl storeUnavailable"
    by (simp add: GetRouteByPath_def loadRoutes_def Let_def mem_defs acc_defs)
  have m1: "Methods routeWild = [''GET'', ''POST'']" "Methods routeExact = []"
    by (simp_all add: routeWild_def routeExact_def)
  show ?thesis
    using IsMethodAllowed_result[of memPorts "''/a/b''" "''POST''" worldHealthy]
      IsMethodAllowed_result[of memPorts "''/a/b''" "''DELETE''" worldHealthy]
      IsMethodAllowed_result[of memPorts "''/a/b''" "''GET''" worldCached]
      IsMethodAllowed_result[of memPorts "''/zzz''" "''GET''" worldHealthy]
      IsMethodAllowed_result[of memPorts "''/a/b''" "''GET''" worldStoreFails]
    by (simp add: g1 g2 g3 g4 m1)
qed

section \<open>Mutations and invalidation\<close>

text \<open>
  C8. \<open>UpdateRoute\<close> and \<open>DeleteRoute\<close>: when the repository mutation fails, its error
  is returned, the repository call is the only call issued and the world is the one
  the repository left, so the cache is untouched; when the mutation succeeds, the
  Service issues the delete of \<open>route:\<close> followed by the route's path and then the
  delete of \<open>routes\<close>, both carried out (the world left behind is the repository's,
  passed through the cache port's \<open>Delete\<close> of the first key and then of the second),
  and returns nil for every behaviour of the cache port, in particular when either
  delete fails. The witness runs a failing store, failing deletes, and a warm cache
  from which both keys are gone afterwards.
\<close>

theorem UpdateRoute_DeleteRoute_invalidate:
  "(fst (repo_update_route P r w) = Some e \<longrightarrow>
      result_of (UpdateRoute P r w) = Some e \<and>
      world_of (UpdateRoute P r w) = snd (repo_update_route P r w) \<and>
      calls_of (UpdateRoute P r w) = [RepoUpdateRoute r]) \<and>
   (fst (repo_update_route P r w) = None \<longrightarrow>
      result_of (UpdateRoute P r w) = None \<and>
      world_of (UpdateRoute P r w) =
        snd (cache_delete P ''routes''
          (snd (cache_delete P (''route:'' @ Path r) (snd (repo_update_route P r w))))) \<and>
      calls_of (UpdateRoute P r w) =
        [RepoUpdateRoute r, CacheDelete (''route:'' @ Path r), CacheDelete ''routes'']) \<and>
   (fst (repo_delete_route P p w) = Some e \<longrightarrow>
      result_of (DeleteRoute P p w) = Some e \<and>
      world_of (DeleteRoute P p w) = snd (repo_delete_route P p w) \<and>
      calls_of (DeleteRoute P p w) = [RepoDeleteRoute p]) \<and>
   (fst (repo_delete_route P p w) = None \<longrightarrow>
      result_of (DeleteRoute P p w) = None \<and>
      world_of (DeleteRoute P p w) =
        snd (cache_delete P ''routes''
          (snd (cache_delete P (''route:'' @ p) (snd (repo_delete_route P p w))))) \<and>
      calls_of (DeleteRoute P p w) =
        [RepoDeleteRoute p, CacheDelete (''route:'' @ p), CacheDelete ''routes''])"
  by (cases "repo_update_route P r w"; cases "repo_delete_route P p w")
     (simp add: UpdateRoute_def DeleteRoute_def Let_def acc_defs split: prod.splits)

theorem UpdateRoute_DeleteRoute_invalidate_witness:
  "fst (repo_update_route memPorts routeWild worldStoreFails) = Some storeUnavailable \<and>
   UpdateRoute memPorts routeWild worldStoreFails =
     (Some storeUnavailable, worldStoreFails, [RepoUpdateRoute routeWild]) \<and>
   fst (repo_delete_route memPorts ''/a/b'' worldStoreFails) = Some storeUnavailable \<and>
   DeleteRoute memPorts ''/a/b'' worldStoreFails =
     (Some storeUnavailable, worldStoreFails, [RepoDeleteRoute ''/a/b'']) \<and>
   fst (repo_update_route memPorts routeWild worldWritesFail) = None \<and>
   fst (cache_delete memPorts ''route:/a/*'' worldWritesFail) = Some cacheUnavailable \<and>
   fst (cache_delete memPorts ''routes'' worldWritesFail) = Some cacheUnavailable \<and>
   result_of (UpdateRoute memPorts routeWild worldWritesFail) = None \<and>
   calls_of (UpdateRoute memPorts routeWild worldWritesFail) =
     [RepoUpdateRoute routeWild, CacheDelete ''route:/a/*'', CacheDelete ''routes''] \<and>
   fst (repo_delete_route memPorts ''/a/b'' worldWritesFail) = None \<and>
   fst (cache_delete memPorts ''route:/a/b'' worldWritesFail) = Some cacheUnavailable \<and>
   result_of (DeleteRoute memPorts ''/a/b'' worldWritesFail) = None \<and>
   calls_of (DeleteRoute memPorts ''/a/b'' worldWritesFail) =
     [RepoDeleteRoute ''/a/b'', CacheDelete ''route:/a/b'', CacheDelete ''routes''] \<and>
   fst (repo_update_route memPorts routeWild worldWarm) = None \<and>
   result_of (UpdateRoute memPorts routeWild worldWarm) = None \<and>
   entries (world_of (UpdateRoute memPorts routeWild worldWarm)) =
     [(''route:/a/b'', RouteValue routeExact)] \<and>
   fst (repo_delete_route memPorts ''/a/b'' worldWarm) = None \<and>
   result_of (DeleteRoute memPorts ''/a/b'' worldWarm) = None \<and>
   entries (world_of (DeleteRoute memPorts ''/a/b'' worldWarm)) =
     [(''route:/a/*'', RouteValue routeWild)] \<and>
   stored_routes (world_of (DeleteRoute memPorts ''/a/b'' worldWarm)) = [routeUsers, routeWild]"
proof -
  have f1: "fst (repo_update_route memPorts routeWild worldStoreFails) = Some storeUnavailable"
    and f2: "fst (repo_delete_route memPorts ''/a/b'' worldStoreFails) = Some storeUnavailable"
    and f3: "snd (repo_update_route memPorts routeWild worldStoreFails) = worldStoreFails"
    and f4: "snd (repo_delete_route memPorts ''/a/b'' worldStoreFails) = worldStoreFails"
    by (simp_all add: mem_defs)
  have s1: "fst (repo_update_route memPorts routeWild worldWritesFail) = None"
    and s2: "fst (repo_delete_route memPorts ''/a/b'' worldWritesFail) = None"
    and s3: "fst (cache_delete memPorts ''route:/a/*'' worldWritesFail) = Some cacheUnavailable"
    and s4: "fst (cache_delete memPorts ''routes'' worldWritesFail) = Some cacheUnavailable"
    and s5: "fst (cache_delete memPorts ''route:/a/b'' worldWritesFail) = Some cacheUnavailable"
    by (simp_all add: mem_defs)
  have t1: "fst (repo_update_route memPorts routeWild worldWarm) = None"
    and t2: "fst (repo_delete_route memPorts ''/a/b'' worldWarm) = None"
    by (simp_all add: mem_defs)
  have t3: "entries (snd (cache_delete memPorts ''routes''
              (snd (cache_delete memPorts (''route:'' @ Path routeWild)
                (snd (repo_update_route memPorts routeWild worldWarm)))))) =
            [(''route:/a/b'', RouteValue routeExact)]"
    by (simp add: mem_defs)
  have t4: "entries (snd (cache_delete memPorts ''routes''
              (snd (cache_delete memPorts (''route:'' @ ''/a/b'')
                (snd (repo_delete_route memPorts ''/a/b'' worldWarm)))))) =
            [(''route:/a/*'', RouteValue routeWild)]"
    and t5: "stored_routes (snd (cache_delete memPorts ''routes''
              (snd (cache_delete memPorts (''route:'' @ ''/a/b'')
                (snd (repo_delete_route memPorts ''/a/b'' worldWarm)))))) =
            [routeUsers, routeWild]"
    by (simp_all add: mem_defs)
  have p1: "Path routeWild = ''/a/*''"
    by (simp add: routeWild_def)
  note fail = UpdateRoute_DeleteRoute_invalidate[of memPorts routeWild worldStoreFails storeUnavailable "''/a/b''"]
  note soft = UpdateRoute_DeleteRoute_invalidate[of memPorts routeWild worldWritesFail storeUnavailable "''/a/b''"]
  note warm = UpdateRoute_DeleteRoute_invalidate[of memPorts routeWild worldWarm storeUnavailable "''/a/b''"]
  from fail f1 f2 f3 f4 have a:
    "UpdateRoute memPorts routeWild worldStoreFails =
       (Some storeUnavailable, worldStoreFails, [RepoUpdateRoute routeWild])"
    "DeleteRoute memPorts ''/a/b'' worldStoreFails =
       (Some storeUnavailable, worldStoreFails, [RepoDeleteRoute ''/a/b''])"
    by (cases "UpdateRoute memPorts routeWild worldStoreFails";
        cases "DeleteRoute memPorts ''/a/b'' worldStoreFails"; simp add: acc_defs)+
  from soft s1 s2 have b:
    "result_of (UpdateRoute memPorts routeWild worldWritesFail) = None"
    "calls_of (UpdateRoute memPorts routeWild worldWritesFail) =
       [RepoUpdateRoute routeWild, CacheDelete ''route:/a/*'', CacheDelete ''routes'']"
    "result_of (DeleteRoute memPorts ''/a/b'' worldWritesFail) = None"
    "calls_of (DeleteRoute memPorts ''/a/b'' worldWritesFail) =
       [RepoDeleteRoute ''/a/b'', CacheDelete ''route:/a/b'', CacheDelete ''routes'']"
    by (simp_all add: p1)
  from warm t1 t2 t3 t4 t5 have c:
    "result_of (UpdateRoute memPorts routeWild worldWarm) = None"
    "entries (world_of (UpdateRoute memPorts routeWild worldWarm)) =
       [(''route:/a/b'', RouteValue routeExact)]"
    "result_of (DeleteRoute memPorts ''/a/b'' worldWarm) = None"
    "entries (world_of (DeleteRoute memPorts ''/a/b'' worldWarm)) =
       [(''route:/a/*'', RouteValue routeWild)]"
    "stored_routes (world_of (DeleteRoute memPorts ''/a/b'' worldWarm)) = [routeUsers, routeWild]"
    by simp_all
  from a b c f1 f2 s1 s2 s3 s4 s5 t1 t2 show ?thesis
    by simp
qed

section \<open>JWT secret\<close>

text \<open>
  C9. \<open>GetJWTSecret\<close> follows a fixed order: the value of \<open>JWT_SECRET_KEY\<close> when it is
  not empty; otherwise the value of \<open>AG_AUTH_JWT_SECRET_KEY\<close> when that is not empty;
  otherwise the secret of the configuration when the configuration loads and the
  secret is not empty; otherwise the fixed development key (and then, only then, the
  warning is printed). An earlier non-empty source hides all later ones.
\<close>

theorem GetJWTSecret_fallback_chain:
  "(Getenv env ''JWT_SECRET_KEY'' \<noteq> [] \<longrightarrow>
      GetJWTSecret env loaded = (Getenv env ''JWT_SECRET_KEY'', [])) \<and>
   (Getenv env ''JWT_SECRET_KEY'' = [] \<and> Getenv env ''AG_AUTH_JWT_SECRET_KEY'' \<noteq> [] \<longrightarrow>
      GetJWTSecret env loaded = (Getenv env ''AG_AUTH_JWT_SECRET_KEY'', [])) \<and>
   (Getenv env ''JWT_SECRET_KEY'' = [] \<and> Getenv env ''AG_AUTH_JWT_SECRET_KEY'' = [] \<and>
    loaded = Inr cfg \<and> JWTSecret cfg \<noteq> [] \<longrightarrow>
      GetJWTSecret env loaded = (JWTSecret cfg, [])) \<and>
   (Getenv env ''JWT_SECRET_KEY'' = [] \<and> Getenv env ''AG_AUTH_JWT_SECRET_KEY'' = [] \<and>
    (loaded = Inl err \<or> (loaded = Inr cfg \<and> JWTSecret cfg = [])) \<longrightarrow>
      GetJWTSecret env loaded = (fallbackKey, [fallbackWarning])) \<and>
   fallbackKey = ''desenvolvimento_inseguro_nao_use_em_producao''"
  by (auto simp: GetJWTSecret_def Let_def fallbackKey_def)

theorem GetJWTSecret_fallback_chain_witness:
  "Getenv envBoth ''JWT_SECRET_KEY'' = ''primary'' \<and>
   GetJWTSecret envBoth (Inr cfgSecret) = (''primary'', []) \<and>
   Getenv envAlternate ''JWT_SECRET_KEY'' = [] \<and>
   Getenv envAlternate ''AG_AUTH_JWT_SECRET_KEY'' = ''alternate'' \<and>
   GetJWTSecret envAlternate (Inr cfgSecret) = (''alternate'', []) \<and>
   Getenv Map.empty ''JWT_SECRET_KEY'' = [] \<and>
   Getenv Map.empty ''AG_AUTH_JWT_SECRET_KEY'' = [] \<and>
   JWTSecret cfgSecret = ''from-config'' \<and>
   GetJWTSecret Map.empty (Inr cfgSecret) = (''from-config'', []) \<and>
   GetJWTSecret Map.empty (Inl (OtherError ''no config file'')) =
     (fallbackKey, [fallbackWarning]) \<and>
   JWTSecret cfgBlank = [] \<and>
   GetJWTSecret Map.empty (Inr cfgBlank) = (fallbackKey, [fallbackWarning])"
proof -
  have e1: "Getenv envBoth ''JWT_SECRET_KEY'' = ''primary''"
    and e2: "Getenv envAlternate ''JWT_SECRET_KEY'' = []"
    and e3: "Getenv envAlternate ''AG_AUTH_JWT_SECRET_KEY'' = ''alternate''"
    and e4: "Getenv Map.empty ''JWT_SECRET_KEY'' = []"
    and e5: "Getenv Map.empty ''AG_AUTH_JWT_SECRET_KEY'' = []"
    by (simp_all add: Getenv_def envBoth_def envAlternate_def)
  have c1: "JWTSecret cfgSecret = ''from-config''" "JWTSecret cfgBlank = []"
    by (simp_all add: cfgSecret_def cfgBlank_def)
  show ?thesis
    using GetJWTSecret_fallback_chain[of envBoth "Inr cfgSecret" cfgSecret]
      GetJWTSecret_fallback_chain[of envAlternate "Inr cfgSecret" cfgSecret]
      GetJWTSecret_fallback_chain[of Map.empty "Inr cfgSecret" cfgSecret]
      GetJWTSecret_fallback_chain
        [of Map.empty "Inl (OtherError ''no config file'')" cfgBlank "OtherError ''no config file''"]
      GetJWTSecret_fallback_chain[of Map.empty "Inr cfgBlank" cfgBlank]
    by (simp add: e1 e2 e3 e4 e5 c1)
qed

section \<open>Error propagation\<close>




end
